theory Spec2Isabelle
  imports Main "HOL-Library.Product_Lexorder" "HOL-Library.Sublist"
begin

section \<open>Data model\<close>

text \<open>
  Strings are lists of characters with code points below 256; on these the decimal
  digits of Python's \<^verbatim>\<open>\d\<close> and \<^verbatim>\<open>int\<close> are exactly \<^verbatim>\<open>0\<close> to \<^verbatim>\<open>9\<close>.
  Every exception the source can raise on the inputs modelled here is a value.
\<close>

datatype py_error =
    AttributeError | JSONDecodeError | KeyError | IndexError | ValueError
  | OverflowError | ZeroDivisionError | SyntaxError | ParseError

text \<open>A naive \<^verbatim>\<open>datetime\<close>; Python compares two of them field by field in this order.\<close>

record datetime =
  year :: nat
  month :: nat
  day :: nat
  hour :: nat
  minute :: nat
  second :: nat
  microsecond :: nat

text \<open>\<^verbatim>\<open>XMLContextObject\<close>. A field that holds \<^verbatim>\<open>None\<close> in Python is \<open>None\<close> here.\<close>

record XMLContextObject =
  ctx_id :: string
  entity_identifier :: "string option"
  segments :: "(string option \<times> string option) list"
  period_start_date :: "string option"
  period_end_date :: "string option"
  period_instant :: "string option"

text \<open>\<^verbatim>\<open>XMLDataObject\<close>; \<open>xml_context\<close> is the field \<^verbatim>\<open>context\<close>: it holds the list that \<^verbatim>\<open>extract_context\<close> returns.\<close>

record XMLDataObject =
  tag :: string
  context_ref :: string
  elem_id :: string
  xml_value :: "string option"
  unit_ref :: string
  decimals :: string
  xml_context :: "XMLContextObject list"

text \<open>\<^verbatim>\<open>Filing\<close>; the dates are the strings of the filings index.\<close>

record Filing =
  cik :: string
  ticker :: string
  accessionNumber :: string
  filingDate :: string
  reportDate :: string
  form :: string
  primaryDocument :: string
  primaryDocDescription :: string
  summary :: string
  xml_data :: "XMLDataObject list option"

text \<open>
  \<^verbatim>\<open>StatementObject\<close>. \<open>st_cik\<close> is \<^verbatim>\<open>data['cik']\<close>, a number in the concept-facts
  response; \<open>st_value\<close> is the formatted string that the source stores in \<^verbatim>\<open>value\<close>.
\<close>

record StatementObject =
  st_cik :: int
  gaap_item :: string
  end_date :: datetime
  accn :: string
  st_form :: string
  fy :: string
  fp :: string
  st_value :: string

text \<open>
  One entry of a unit group of the concept-facts response (a JSON object with the keys
  \<^verbatim>\<open>fy\<close>, \<^verbatim>\<open>fp\<close>, \<^verbatim>\<open>end\<close>, \<^verbatim>\<open>accn\<close>, \<^verbatim>\<open>form\<close>, \<^verbatim>\<open>val\<close>). \<^verbatim>\<open>fy\<close> is a JSON
  integer, string or null; \<^verbatim>\<open>val\<close> is a JSON integer, on which \<^verbatim>\<open>int\<close> is the identity.
\<close>

datatype json_scalar = JNull | JInt int | JStr string

record unit_entry =
  u_fy :: json_scalar
  u_fp :: string
  u_end :: string
  u_accn :: string
  u_form :: string
  u_val :: int

text \<open>
  The decoded concept-facts response. \<open>units\<close> is the \<^verbatim>\<open>units\<close> object in the order of
  its keys, which is the order of \<^verbatim>\<open>dict.values()\<close>.
\<close>

record companyconcept =
  cc_cik :: int
  cc_tag :: string
  units :: "(string \<times> unit_entry list) list"

text \<open>The decoded filings index: the fields \<^verbatim>\<open>get_filing\<close> reads.\<close>

record recent_filings =
  accessionNumber_list :: "string list"
  filingDate_list :: "string list"
  reportDate_list :: "string list"
  form_list :: "string list"
  primaryDocument_list :: "string list"
  primaryDocDescription_list :: "string list"

record submissions =
  sub_name :: string
  sic :: string
  sicDescription :: string
  ein :: string
  fiscalYearEnd :: string
  exchanges :: "string list"
  recent :: recent_filings

datatype payload = ConceptFacts companyconcept | FilingsIndex submissions

text \<open>
  An element of an \<^verbatim>\<open>ElementTree\<close>: the tag in the form \<^verbatim>\<open>{uri}local\<close>, the attributes,
  the text (\<^verbatim>\<open>None\<close> when there is none) and the children in document order.
\<close>

datatype element =
  Element (el_tag: string) (attrib: "(string \<times> string) list") (el_text: "string option")
    (children: "element list")

text \<open>
  A response of \<^verbatim>\<open>requests\<close>, with its body as each consumer decodes it:
  \<open>json\<close> is the result of \<^verbatim>\<open>json.loads\<close> (\<open>None\<close> when the body is not JSON),
  \<open>first_table_hrefs\<close> the \<^verbatim>\<open>href\<close> of every \<^verbatim>\<open>a\<close> tag inside the first \<^verbatim>\<open>table\<close> that
  \<^verbatim>\<open>BeautifulSoup\<close> finds (\<open>None\<close> when there is no table; an entry is \<open>None\<close> for an
  \<^verbatim>\<open>a\<close> tag without \<^verbatim>\<open>href\<close>), and \<open>xml\<close> the result of \<^verbatim>\<open>ET.fromstring\<close> (\<open>None\<close>
  when the body is not well-formed XML).
\<close>

record response =
  ok :: bool
  json :: "payload option"
  first_table_hrefs :: "string option list option"
  xml :: "element option"

text \<open>
  \<^verbatim>\<open>get_request\<close>: the network as a function from the URL to the response, \<open>None\<close>
  when the connection fails (the source prints a message and returns \<^verbatim>\<open>None\<close>).
\<close>

type_synonym network = "string \<Rightarrow> response option"

section \<open>General utilities\<close>

subsection \<open>Floats and their rendering\<close>

text \<open>
  A finite binary64 float is the pair \<open>(m, e)\<close> of its value \<open>m * 2 ^ e\<close>. Division of two
  integers and \<^verbatim>\<open>float(int)\<close> round the exact result to the nearest float, ties to the
  even mantissa, and raise \<^verbatim>\<open>OverflowError\<close> when that float is not finite.
\<close>

type_synonym py_float = "int \<times> int"

fun bit_length :: "nat \<Rightarrow> nat" where
  "bit_length n = (if n = 0 then 0 else Suc (bit_length (n div 2)))"

declare bit_length.simps [simp del]

definition round_half_even :: "int \<Rightarrow> int \<Rightarrow> int" where
  "round_half_even n d =
     (let q = n div d; r = n mod d
      in if 2 * r < d then q else if d < 2 * r then q + 1
         else if even q then q else q + 1)"

definition floor_log2 :: "nat \<Rightarrow> nat \<Rightarrow> int" where
  "floor_log2 n d =
     (let k = int (bit_length n) - int (bit_length d)
      in if (if 0 \<le> k then d * 2 ^ nat k \<le> n else d \<le> n * 2 ^ nat (- k)) then k else k - 1)"

definition true_divide :: "int \<Rightarrow> int \<Rightarrow> py_error + py_float" where
  "true_divide a b =
     (if b = 0 then Inl ZeroDivisionError
      else if a = 0 then Inr (0, 0)
      else
        let n = nat \<bar>a\<bar>; d = nat \<bar>b\<bar>;
            e = max (floor_log2 n d - 52) (- 1074);
            m = (if 0 \<le> e then round_half_even (int n) (int d * 2 ^ nat e)
                 else round_half_even (int n * 2 ^ nat (- e)) (int d))
        in if 972 \<le> e \<or> (e = 971 \<and> m = 2 ^ 53) then Inl OverflowError
           else Inr (sgn a * sgn b * m, e))"

definition float_of_int :: "int \<Rightarrow> py_error + py_float" where
  "float_of_int v = true_divide v 1"

fun digits :: "nat \<Rightarrow> string" where
  "digits n =
     (if n < 10 then [char_of (48 + n)] else digits (n div 10) @ [char_of (48 + n mod 10)])"

declare digits.simps [simp del]

function group3 :: "string \<Rightarrow> string" where
  "group3 ds =
     (if length ds \<le> 3 then ds
      else group3 (take (length ds - 3) ds) @ '','' @ drop (length ds - 3) ds)"
  by pat_completeness auto
termination
  by (relation "measure length") auto

declare group3.simps [simp del]

text \<open>
  The format \<^verbatim>\<open>{:,.2f}\<close>: the float rounded to the nearest hundredth (ties to even, on
  the float's exact value), its integer part grouped in threes, two decimals.
\<close>

definition format_comma_2f :: "py_float \<Rightarrow> string" where
  "format_comma_2f x =
     (let m = fst x; e = snd x;
          cents = nat (if 0 \<le> e then \<bar>m\<bar> * 2 ^ nat e * 100
                       else round_half_even (\<bar>m\<bar> * 100) (2 ^ nat (- e)))
      in (if m < 0 then ''-'' else []) @ group3 (digits (cents div 100)) @ ''.''
         @ [char_of (48 + cents mod 100 div 10), char_of (48 + cents mod 10)])"

definition format_value_as_readable :: "int \<Rightarrow> py_error + string" where
  "format_value_as_readable v =
     (if 1000000000 \<le> v then
        (case true_divide v 1000000000 of Inl err \<Rightarrow> Inl err
         | Inr x \<Rightarrow> Inr (''$'' @ format_comma_2f x @ ''B''))
      else if 1000000 \<le> v then
        (case true_divide v 1000000 of Inl err \<Rightarrow> Inl err
         | Inr x \<Rightarrow> Inr (''$'' @ format_comma_2f x @ ''M''))
      else if 1000 \<le> v then
        (case true_divide v 1000 of Inl err \<Rightarrow> Inl err
         | Inr x \<Rightarrow> Inr (''$'' @ format_comma_2f x @ ''K''))
      else
        (case float_of_int v of Inl err \<Rightarrow> Inl err
         | Inr x \<Rightarrow> Inr (''$'' @ format_comma_2f x)))"

section \<open>Filings utilities\<close>

record bio =
  bio_name :: string
  bio_sic :: string
  bio_sicDescription :: string
  bio_EIN :: string
  bio_fiscalYearEnd :: string
  bio_Exchanges :: "string set"

text \<open>
  \<^verbatim>\<open>get_filing\<close>. The response is not checked: a failed connection raises at
  \<^verbatim>\<open>response.json()\<close>, as does a body that is not JSON; a JSON object without the keys
  read here raises \<^verbatim>\<open>KeyError\<close>. \<^verbatim>\<open>zip\<close> stops at the shortest of its six lists.
\<close>

definition build_filings :: "string \<Rightarrow> string \<Rightarrow> recent_filings \<Rightarrow> Filing list" where
  "build_filings tk ck r =
     map (\<lambda>(a, fd, rd, fm, pd, pdd).
            \<lparr>cik = ck, ticker = tk, accessionNumber = a, filingDate = fd, reportDate = rd,
             form = fm, primaryDocument = pd, primaryDocDescription = pdd,
             summary = ''No summary'', xml_data = None\<rparr>)
       (zip (accessionNumber_list r) (zip (filingDate_list r) (zip (reportDate_list r)
         (zip (form_list r) (zip (primaryDocument_list r) (primaryDocDescription_list r))))))"

definition get_filing :: "network \<Rightarrow> string \<Rightarrow> string \<Rightarrow> py_error + (bio \<times> Filing list)" where
  "get_filing net tk ck =
     (case net (''https://data.sec.gov/submissions/CIK'' @ ck @ ''.json'') of
        None \<Rightarrow> Inl AttributeError
      | Some resp \<Rightarrow>
          (case json resp of
             None \<Rightarrow> Inl JSONDecodeError
           | Some (ConceptFacts c) \<Rightarrow> Inl KeyError
           | Some (FilingsIndex filings_data) \<Rightarrow>
               Inr (\<lparr>bio_name = sub_name filings_data, bio_sic = sic filings_data,
                     bio_sicDescription = sicDescription filings_data,
                     bio_EIN = ein filings_data,
                     bio_fiscalYearEnd = take 2 (fiscalYearEnd filings_data) @ ''/''
                                         @ drop 2 (fiscalYearEnd filings_data),
                     bio_Exchanges = set (exchanges filings_data)\<rparr>,
                    build_filings tk ck (recent filings_data))))"

section \<open>Statement utilities\<close>

subsection \<open>Parsing the end date\<close>

text \<open>
  \<^verbatim>\<open>datetime.strptime(s, '%Y-%m-%d')\<close> matches \<^verbatim>\<open>s\<close> against the regular expression
  \<^verbatim>\<open>(\d\d\d\d)-(1[0-2]|0[1-9]|[1-9])-(3[01]|[12]\d|0[1-9]|[1-9]| [1-9])\<close>, whose
  alternatives are tried in this order, raises \<^verbatim>\<open>ValueError\<close> when it does not match or
  when text remains after the match, and raises \<^verbatim>\<open>ValueError\<close> when the year is 0 or the
  day does not exist in the month.
\<close>

definition is_digit :: "char \<Rightarrow> bool" where
  "is_digit c = (c \<in> set ''0123456789'')"

definition digit_val :: "char \<Rightarrow> nat" where
  "digit_val c = of_char c - 48"

definition match_Y :: "string \<Rightarrow> (nat \<times> string) option" where
  "match_Y s =
     (case s of
        a # b # c # d # r \<Rightarrow>
          if is_digit a \<and> is_digit b \<and> is_digit c \<and> is_digit d
          then Some (1000 * digit_val a + 100 * digit_val b + 10 * digit_val c + digit_val d, r)
          else None
      | _ \<Rightarrow> None)"

definition match_m :: "string \<Rightarrow> (nat \<times> string) option" where
  "match_m s =
     (case s of
        [] \<Rightarrow> None
      | [a] \<Rightarrow> if a \<in> set ''123456789'' then Some (digit_val a, []) else None
      | a # b # r \<Rightarrow>
          if a = CHR ''1'' \<and> b \<in> set ''012'' then Some (10 + digit_val b, r)
          else if a = CHR ''0'' \<and> b \<in> set ''123456789'' then Some (digit_val b, r)
          else if a \<in> set ''123456789'' then Some (digit_val a, b # r)
          else None)"

definition match_d :: "string \<Rightarrow> (nat \<times> string) option" where
  "match_d s =
     (case s of
        [] \<Rightarrow> None
      | [a] \<Rightarrow> if a \<in> set ''123456789'' then Some (digit_val a, []) else None
      | a # b # r \<Rightarrow>
          if a = CHR ''3'' \<and> b \<in> set ''01'' then Some (30 + digit_val b, r)
          else if a \<in> set ''12'' \<and> is_digit b then Some (10 * digit_val a + digit_val b, r)
          else if a = CHR ''0'' \<and> b \<in> set ''123456789'' then Some (digit_val b, r)
          else if a \<in> set ''123456789'' then Some (digit_val a, b # r)
          else if a = CHR '' '' \<and> b \<in> set ''123456789'' then Some (digit_val b, r)
          else None)"

definition days_in_month :: "nat \<Rightarrow> nat \<Rightarrow> nat" where
  "days_in_month y m =
     (if m = 2 then (if y mod 4 = 0 \<and> (y mod 100 \<noteq> 0 \<or> y mod 400 = 0) then 29 else 28)
      else if m \<in> {4, 6, 9, 11} then 30 else 31)"

definition strptime_ymd :: "string \<Rightarrow> py_error + datetime" where
  "strptime_ymd s =
     (case match_Y s of
        None \<Rightarrow> Inl ValueError
      | Some (y, r1) \<Rightarrow>
          (case r1 of
             [] \<Rightarrow> Inl ValueError
           | c1 # r2 \<Rightarrow>
               if c1 \<noteq> CHR ''-'' then Inl ValueError
               else
                 (case match_m r2 of
                    None \<Rightarrow> Inl ValueError
                  | Some (m, r3) \<Rightarrow>
                      (case r3 of
                         [] \<Rightarrow> Inl ValueError
                       | c2 # r4 \<Rightarrow>
                           if c2 \<noteq> CHR ''-'' then Inl ValueError
                           else
                             (case match_d r4 of
                                None \<Rightarrow> Inl ValueError
                              | Some (d, r5) \<Rightarrow>
                                  if r5 \<noteq> [] then Inl ValueError
                                  else if y = 0 \<or> days_in_month y m < d then Inl ValueError
                                  else Inr \<lparr>year = y, month = m, day = d, hour = 0,
                                            minute = 0, second = 0, microsecond = 0\<rparr>)))))"

subsection \<open>Sorting and deduplicating statements\<close>

text \<open>
  \<^verbatim>\<open>sorted(statements, key=lambda statement: statement.end_date)\<close>: Python's \<^verbatim>\<open>sorted\<close>
  is a stable sort by the key, as \<^const>\<open>sort_key\<close> is; the key orders the fields of
  the \<^verbatim>\<open>datetime\<close> lexicographically.
\<close>

definition datetime_key :: "datetime \<Rightarrow> nat \<times> nat \<times> nat \<times> nat \<times> nat \<times> nat \<times> nat" where
  "datetime_key t = (year t, month t, day t, hour t, minute t, second t, microsecond t)"

definition sort_statements_by_date :: "StatementObject list \<Rightarrow> StatementObject list" where
  "sort_statements_by_date statements =
     sort_key (\<lambda>statement. datetime_key (end_date statement)) statements"

text \<open>\<^verbatim>\<open>str(unit['fy']).split(".")[0]\<close>\<close>

definition py_str :: "json_scalar \<Rightarrow> string" where
  "py_str j =
     (case j of
        JNull \<Rightarrow> ''None''
      | JInt n \<Rightarrow> (if n < 0 then ''-'' else []) @ digits (nat \<bar>n\<bar>)
      | JStr s \<Rightarrow> s)"

definition split_dot_first :: "string \<Rightarrow> string" where
  "split_dot_first s = takeWhile (\<lambda>c. c \<noteq> CHR ''.'') s"

text \<open>
  The \<^verbatim>\<open>StatementObject(...)\<close> call of the loop body; its arguments are evaluated in
  the order written, so a malformed date raises before the value is formatted.
\<close>

definition statement_object :: "companyconcept \<Rightarrow> unit_entry \<Rightarrow> py_error + StatementObject" where
  "statement_object data u =
     (case strptime_ymd (u_end u) of
        Inl err \<Rightarrow> Inl err
      | Inr d \<Rightarrow>
          (case format_value_as_readable (u_val u) of
             Inl err \<Rightarrow> Inl err
           | Inr v \<Rightarrow>
               Inr \<lparr>st_cik = cc_cik data, gaap_item = cc_tag data, end_date = d,
                    accn = u_accn u, st_form = u_form u,
                    fy = split_dot_first (py_str (u_fy u)), fp = u_fp u, st_value = v\<rparr>))"

text \<open>
  The loop of \<^verbatim>\<open>get_statement_data\<close> over \<^verbatim>\<open>units_list\<close>, with its two variables
  \<^verbatim>\<open>unique_combinations\<close> and \<^verbatim>\<open>statement_objects\<close>.
\<close>

definition fp_end_date_tuple :: "unit_entry \<Rightarrow> string \<times> string" where
  "fp_end_date_tuple u = (u_fp u, u_end u)"

fun statement_loop ::
  "companyconcept \<Rightarrow> unit_entry list \<Rightarrow> (string \<times> string) set \<Rightarrow> StatementObject list
   \<Rightarrow> py_error + StatementObject list" where
  "statement_loop data [] unique_combinations statement_objects = Inr statement_objects"
| "statement_loop data (u # us) unique_combinations statement_objects =
     (if fp_end_date_tuple u \<notin> unique_combinations then
        (case statement_object data u of
           Inl err \<Rightarrow> Inl err
         | Inr statement \<Rightarrow>
             statement_loop data us (insert (fp_end_date_tuple u) unique_combinations)
               (statement_objects @ [statement]))
      else statement_loop data us unique_combinations statement_objects)"

text \<open>
  \<^verbatim>\<open>get_statement_data\<close>. The result \<open>Inr None\<close> is the \<^verbatim>\<open>None\<close> the source returns
  for a response that is not \<^verbatim>\<open>ok\<close>. A failed connection leaves \<^verbatim>\<open>response\<close> at
  \<^verbatim>\<open>None\<close>, on which \<^verbatim>\<open>response.ok\<close> raises; \<^verbatim>\<open>list(...)[0]\<close> raises \<^verbatim>\<open>IndexError\<close> on
  an empty \<^verbatim>\<open>units\<close> object.
\<close>

definition get_statement_data ::
  "network \<Rightarrow> string \<Rightarrow> string \<Rightarrow> py_error + StatementObject list option" where
  "get_statement_data net ck gaap =
     (case net (''https://data.sec.gov/api/xbrl/companyconcept/CIK'' @ ck @ ''/us-gaap/''
                @ gaap @ ''.json'') of
        None \<Rightarrow> Inl AttributeError
      | Some resp \<Rightarrow>
          if ok resp then
            (case json resp of
               None \<Rightarrow> Inl JSONDecodeError
             | Some (FilingsIndex f) \<Rightarrow> Inl KeyError
             | Some (ConceptFacts data) \<Rightarrow>
                 (case map snd (units data) of
                    [] \<Rightarrow> Inl IndexError
                  | units_list # others \<Rightarrow>
                      (case statement_loop data units_list {} [] of
                         Inl err \<Rightarrow> Inl err
                       | Inr statement_objects \<Rightarrow> Inr (Some statement_objects))))
          else Inr None)"

subsection \<open>Element trees\<close>

text \<open>\<^verbatim>\<open>Element.iter()\<close>: the element and all its descendants in document order.\<close>

fun iter :: "element \<Rightarrow> element list" where
  "iter (Element t a x cs) = Element t a x cs # concat (map iter cs)"

definition descendants :: "element \<Rightarrow> element list" where
  "descendants e = concat (map iter (children e))"

text \<open>A path of two child steps \<^verbatim>\<open>t1/t2\<close>, as \<^verbatim>\<open>find\<close> and \<^verbatim>\<open>findtext\<close> walk it.\<close>

definition child_elems :: "string \<Rightarrow> element \<Rightarrow> element list" where
  "child_elems t e = filter (\<lambda>c. el_tag c = t) (children e)"

definition path2 :: "string \<Rightarrow> string \<Rightarrow> element \<Rightarrow> element list" where
  "path2 t1 t2 e = concat (map (child_elems t2) (child_elems t1 e))"

definition findtext :: "string \<Rightarrow> string \<Rightarrow> element \<Rightarrow> string option" where
  "findtext t1 t2 e =
     (case path2 t1 t2 e of
        [] \<Rightarrow> None
      | x # xs \<Rightarrow> Some (case el_text x of None \<Rightarrow> [] | Some s \<Rightarrow> s))"

definition xbrl :: "string \<Rightarrow> string" where
  "xbrl name = ''{http://www.xbrl.org/2003/instance}'' @ name"

definition xbrldi :: "string \<Rightarrow> string" where
  "xbrldi name = ''{http://xbrl.org/2006/xbrldi}'' @ name"

subsection \<open>Contexts\<close>

text \<open>
  \<^verbatim>\<open>root.findall(f".//xbrl:context[@id='{context_ref}']", namespaces)\<close>. The reference
  is pasted into the path between apostrophes. When it has no apostrophe, the path
  selects the descendants of the root with the tag \<^verbatim>\<open>context\<close> whose \<^verbatim>\<open>id\<close> is the
  reference. When it has one, the quoted string ends there; if no \<^verbatim>\<open>]\<close> follows in the
  reference, the tokens up to the closing \<^verbatim>\<open>]\<close> of the path are no predicate and
  \<^verbatim>\<open>ElementPath\<close> raises \<^verbatim>\<open>SyntaxError\<close>. Otherwise the reference closes the predicate
  itself and the rest of it is read as more path: what \<^verbatim>\<open>ElementPath\<close> does then is the
  parameter \<open>other\<close>.
\<close>

type_synonym elementpath = "string \<Rightarrow> element \<Rightarrow> py_error + element list"

definition findall_context :: "elementpath \<Rightarrow> element \<Rightarrow> string \<Rightarrow> py_error + element list" where
  "findall_context other root cref =
     (if CHR 0x27 \<notin> set cref then
        Inr (filter (\<lambda>e. el_tag e = xbrl ''context'' \<and> map_of (attrib e) ''id'' = Some cref)
               (descendants root))
      else if CHR '']'' \<notin> set (dropWhile (\<lambda>c. c \<noteq> CHR 0x27) cref) then Inl SyntaxError
      else other cref root)"

text \<open>The body of the loop of \<^verbatim>\<open>extract_context\<close>.\<close>

definition context_object :: "string \<Rightarrow> element \<Rightarrow> XMLContextObject" where
  "context_object cref context_element =
     \<lparr>ctx_id = cref,
      entity_identifier =
        (case path2 (xbrl ''entity'') (xbrl ''identifier'') context_element of
           [] \<Rightarrow> Some ''N/A''
         | x # xs \<Rightarrow> el_text x),
      segments =
        map (\<lambda>member. (map_of (attrib member) ''dimension'', el_text member))
          (filter (\<lambda>e. el_tag e = xbrldi ''explicitMember'') (descendants context_element)),
      period_start_date = findtext (xbrl ''period'') (xbrl ''startDate'') context_element,
      period_end_date = findtext (xbrl ''period'') (xbrl ''endDate'') context_element,
      period_instant = findtext (xbrl ''period'') (xbrl ''instant'') context_element\<rparr>"

definition extract_context ::
  "elementpath \<Rightarrow> element \<Rightarrow> string \<Rightarrow> py_error + XMLContextObject list" where
  "extract_context other root cref =
     (case findall_context other root cref of
        Inl err \<Rightarrow> Inl err
      | Inr context_elements \<Rightarrow> Inr (map (context_object cref) context_elements))"

subsection \<open>Facts\<close>

text \<open>\<^verbatim>\<open>pat in s\<close> on strings, \<^verbatim>\<open>s.partition('}')[2]\<close> and \<^verbatim>\<open>attrib.get(k, 'N/A')\<close>.\<close>

fun str_in :: "string \<Rightarrow> string \<Rightarrow> bool" where
  "str_in pat [] = (pat = [])"
| "str_in pat (c # cs) = (take (length pat) (c # cs) = pat \<or> str_in pat cs)"

definition after_brace :: "string \<Rightarrow> string" where
  "after_brace s = drop 1 (dropWhile (\<lambda>c. c \<noteq> CHR ''}'') s)"

definition attrib_get :: "element \<Rightarrow> string \<Rightarrow> string" where
  "attrib_get elem k = (case map_of (attrib elem) k of None \<Rightarrow> ''N/A'' | Some v \<Rightarrow> v)"

text \<open>The body of the loop of \<^verbatim>\<open>extract_tags\<close> for an element that passes the test.\<close>

definition data_object :: "elementpath \<Rightarrow> element \<Rightarrow> element \<Rightarrow> py_error + XMLDataObject" where
  "data_object other root elem =
     (case extract_context other root (attrib_get elem ''contextRef'') of
        Inl err \<Rightarrow> Inl err
      | Inr ctx \<Rightarrow>
          Inr \<lparr>tag = after_brace (el_tag elem),
               context_ref = attrib_get elem ''contextRef'',
               elem_id = attrib_get elem ''id'',
               xml_value = el_text elem,
               unit_ref = attrib_get elem ''unitRef'',
               decimals = attrib_get elem ''decimals'',
               xml_context = ctx\<rparr>)"

fun extract_loop ::
  "elementpath \<Rightarrow> element \<Rightarrow> element list \<Rightarrow> XMLDataObject list \<Rightarrow> py_error + XMLDataObject list"
  where
  "extract_loop other root [] extracted_data = Inr extracted_data"
| "extract_loop other root (elem # elems) extracted_data =
     (if str_in ''fasb.org/us-gaap'' (el_tag elem) then
        (case data_object other root elem of
           Inl err \<Rightarrow> Inl err
         | Inr obj \<Rightarrow> extract_loop other root elems (extracted_data @ [obj]))
      else extract_loop other root elems extracted_data)"

text \<open>
  \<^verbatim>\<open>extract_tags\<close>. Its argument is the document as \<^verbatim>\<open>ET.fromstring\<close> reads it: \<open>None\<close>
  for bytes that are not well-formed XML, on which the parser raises.
\<close>

definition extract_tags :: "elementpath \<Rightarrow> element option \<Rightarrow> py_error + XMLDataObject list" where
  "extract_tags other xml_doc =
     (case xml_doc of
        None \<Rightarrow> Inl ParseError
      | Some root \<Rightarrow> extract_loop other root (iter root) [])"

subsection \<open>Attaching the facts to the filings\<close>

text \<open>
  \<^verbatim>\<open>find_xml_link\<close>: the result is a file name, the string of the missing table, or
  \<^verbatim>\<open>None\<close>, which the caller's f-string prints as \<^verbatim>\<open>None\<close>.
\<close>

definition endswith :: "string \<Rightarrow> string \<Rightarrow> bool" where
  "endswith s suf = (length suf \<le> length s \<and> drop (length s - length suf) s = suf)"

definition last_segment :: "string \<Rightarrow> string" where
  "last_segment s = rev (takeWhile (\<lambda>c. c \<noteq> CHR ''/'') (rev s))"

fun first_xml_href :: "string option list \<Rightarrow> string option" where
  "first_xml_href [] = None"
| "first_xml_href (None # tags) = first_xml_href tags"
| "first_xml_href (Some href # tags) =
     (if href \<noteq> [] \<and> endswith href ''_htm.xml'' then Some (last_segment href)
      else first_xml_href tags)"

definition find_xml_link :: "response \<Rightarrow> string option" where
  "find_xml_link html_content =
     (case first_table_hrefs html_content of
        None \<Rightarrow> Some ''tbody tag not found''
      | Some a_tags \<Rightarrow> first_xml_href a_tags)"

definition upper :: "string \<Rightarrow> string" where
  "upper s =
     map (\<lambda>c. if c \<in> set ''abcdefghijklmnopqrstuvwxyz'' then char_of (of_char c - (32::nat)) else c) s"

definition filing_url :: "Filing \<Rightarrow> string" where
  "filing_url item =
     ''https://www.sec.gov/Archives/edgar/data/'' @ cik item @ ''/''
     @ filter (\<lambda>c. c \<noteq> CHR ''-'') (accessionNumber item)"

text \<open>The body of the loop of \<^verbatim>\<open>get_xml\<close> for a filing that passes the test.\<close>

definition fetch_xml_data :: "elementpath \<Rightarrow> network \<Rightarrow> Filing \<Rightarrow> py_error + XMLDataObject list" where
  "fetch_xml_data other net item =
     (case net (filing_url item) of
        None \<Rightarrow> Inl AttributeError
      | Some database_response \<Rightarrow>
          (case net (filing_url item @ ''/''
                     @ (case find_xml_link database_response of None \<Rightarrow> ''None'' | Some n \<Rightarrow> n)) of
             None \<Rightarrow> Inl AttributeError
           | Some xml_response \<Rightarrow> extract_tags other (xml xml_response)))"

text \<open>
  The loop of \<^verbatim>\<open>get_xml\<close>: the filings not yet visited and \<^verbatim>\<open>count\<close>; the result is
  the list with \<^verbatim>\<open>xml_data\<close> set on the filings the loop has fetched.
\<close>

fun get_xml_loop ::
  "elementpath \<Rightarrow> network \<Rightarrow> int \<Rightarrow> Filing list \<Rightarrow> int \<Rightarrow> py_error + Filing list" where
  "get_xml_loop other net limit [] count = Inr []"
| "get_xml_loop other net limit (item # items) count =
     (if upper (form item) \<in> set [''10-Q'', ''10-K''] \<and> count < limit then
        (case fetch_xml_data other net item of
           Inl err \<Rightarrow> Inl err
         | Inr data \<Rightarrow>
             (case get_xml_loop other net limit items (count + 1) of
                Inl err \<Rightarrow> Inl err
              | Inr updated \<Rightarrow> Inr (item\<lparr>xml_data := Some data\<rparr> # updated)))
      else
        (case get_xml_loop other net limit items count of
           Inl err \<Rightarrow> Inl err
         | Inr updated \<Rightarrow> Inr (item # updated)))"

definition get_xml :: "elementpath \<Rightarrow> network \<Rightarrow> Filing list \<Rightarrow> int \<Rightarrow> py_error + Filing list" where
  "get_xml other net filings limit =
     get_xml_loop other net (if limit = 0 then int (length filings) + 1 else limit) filings 0"

text \<open>The call \<^verbatim>\<open>get_xml(filings)\<close>, with the default \<^verbatim>\<open>limit=3\<close>.\<close>

definition get_xml_default :: "elementpath \<Rightarrow> network \<Rightarrow> Filing list \<Rightarrow> py_error + Filing list" where
  "get_xml_default other net filings = get_xml other net filings 3"

section \<open>Example data\<close>

text \<open>A successful response with a JSON body, and the filings index of the scenario.\<close>

definition json_response :: "payload \<Rightarrow> response" where
  "json_response p = \<lparr>ok = True, json = Some p, first_table_hrefs = None, xml = None\<rparr>"

definition scenario_index :: submissions where
  "scenario_index =
     \<lparr>sub_name = ''Apple Inc.'', sic = ''3571'',
      sicDescription = ''Electronic Computers'', ein = ''942404110'',
      fiscalYearEnd = ''0930'', exchanges = [''Nasdaq''],
      recent = \<lparr>accessionNumber_list = [''0000320193-23-000106''],
                filingDate_list = [''2023-11-03''], reportDate_list = [''2023-09-30''],
                form_list = [''10-K''], primaryDocument_list = [''aapl-20230930.htm''],
                primaryDocDescription_list = [''10-K'']\<rparr>\<rparr>"

section \<open>Properties\<close>

subsection \<open>The filing catalog\<close>

lemma build_filings_length:
  assumes "length (filingDate_list r) = length (accessionNumber_list r)"
    and "length (reportDate_list r) = length (accessionNumber_list r)"
    and "length (form_list r) = length (accessionNumber_list r)"
    and "length (primaryDocument_list r) = length (accessionNumber_list r)"
    and "length (primaryDocDescription_list r) = length (accessionNumber_list r)"
  shows "length (build_filings tk ck r) = length (accessionNumber_list r)"
  using assms by (simp add: build_filings_def)

lemma build_filings_nth:
  assumes "length (filingDate_list r) = length (accessionNumber_list r)"
    and "length (reportDate_list r) = length (accessionNumber_list r)"
    and "length (form_list r) = length (accessionNumber_list r)"
    and "length (primaryDocument_list r) = length (accessionNumber_list r)"
    and "length (primaryDocDescription_list r) = length (accessionNumber_list r)"
    and "i < length (accessionNumber_list r)"
  shows "build_filings tk ck r ! i =
     \<lparr>cik = ck, ticker = tk, accessionNumber = accessionNumber_list r ! i,
      filingDate = filingDate_list r ! i, reportDate = reportDate_list r ! i,
      form = form_list r ! i, primaryDocument = primaryDocument_list r ! i,
      primaryDocDescription = primaryDocDescription_list r ! i,
      summary = ''No summary'', xml_data = None\<rparr>"
  using assms by (simp add: build_filings_def)

text \<open>
  C3. When the filings index is fetched and decoded and its six parallel arrays all have
  length \<open>N\<close>, \<^verbatim>\<open>get_filing\<close> returns exactly \<open>N\<close> filings, the \<open>i\<close>-th built from the
  \<open>i\<close>-th element of each array, with the given cik and ticker, the summary
  \<^verbatim>\<open>No summary\<close> and no facts (\<^verbatim>\<open>xml_data\<close> is \<^verbatim>\<open>None\<close>).
\<close>

theorem get_filing_positional:
  assumes "net (''https://data.sec.gov/submissions/CIK'' @ ck @ ''.json'') = Some resp"
    and "json resp = Some (FilingsIndex filings_data)"
    and "length (accessionNumber_list (recent filings_data)) = N"
    and "length (filingDate_list (recent filings_data)) = N"
    and "length (reportDate_list (recent filings_data)) = N"
    and "length (form_list (recent filings_data)) = N"
    and "length (primaryDocument_list (recent filings_data)) = N"
    and "length (primaryDocDescription_list (recent filings_data)) = N"
  shows "\<exists>b filings. get_filing net tk ck = Inr (b, filings) \<and> length filings = N \<and>
     (\<forall>i<N. filings ! i =
        \<lparr>cik = ck, ticker = tk,
         accessionNumber = accessionNumber_list (recent filings_data) ! i,
         filingDate = filingDate_list (recent filings_data) ! i,
         reportDate = reportDate_list (recent filings_data) ! i,
         form = form_list (recent filings_data) ! i,
         primaryDocument = primaryDocument_list (recent filings_data) ! i,
         primaryDocDescription = primaryDocDescription_list (recent filings_data) ! i,
         summary = ''No summary'', xml_data = None\<rparr>)"
proof -
  let ?r = "recent filings_data"
  have len: "length (build_filings tk ck ?r) = N"
    using assms(3-8) build_filings_length [of ?r tk ck] by simp
  have nth: "\<forall>i<N. build_filings tk ck ?r ! i =
        \<lparr>cik = ck, ticker = tk, accessionNumber = accessionNumber_list ?r ! i,
         filingDate = filingDate_list ?r ! i, reportDate = reportDate_list ?r ! i,
         form = form_list ?r ! i, primaryDocument = primaryDocument_list ?r ! i,
         primaryDocDescription = primaryDocDescription_list ?r ! i,
         summary = ''No summary'', xml_data = None\<rparr>"
    using assms(3-8) build_filings_nth [of ?r _ tk ck] by simp
  have "get_filing net tk ck =
      Inr (\<lparr>bio_name = sub_name filings_data, bio_sic = sic filings_data,
            bio_sicDescription = sicDescription filings_data, bio_EIN = ein filings_data,
            bio_fiscalYearEnd = take 2 (fiscalYearEnd filings_data) @ ''/''
                                @ drop 2 (fiscalYearEnd filings_data),
            bio_Exchanges = set (exchanges filings_data)\<rparr>, build_filings tk ck ?r)"
    using assms(1,2) by (simp add: get_filing_def)
  with len nth show ?thesis by blast
qed

text \<open>The end-to-end scenario: one filing, with exactly the fields of the index.\<close>

theorem get_filing_positional_witness:
  "\<exists>b filings.
     get_filing (\<lambda>url. Some (json_response (FilingsIndex scenario_index))) ''AAPL'' ''0000320193''
       = Inr (b, filings)
     \<and> length filings = 1
     \<and> (\<forall>i<1. filings ! i =
        \<lparr>cik = ''0000320193'', ticker = ''AAPL'', accessionNumber = ''0000320193-23-000106'',
         filingDate = ''2023-11-03'', reportDate = ''2023-09-30'', form = ''10-K'',
         primaryDocument = ''aapl-20230930.htm'', primaryDocDescription = ''10-K'',
         summary = ''No summary'', xml_data = None\<rparr>)"
  using get_filing_positional [where net = "\<lambda>url. Some (json_response (FilingsIndex scenario_index))"
      and ck = "''0000320193''" and tk = "''AAPL''" and N = 1
      and resp = "json_response (FilingsIndex scenario_index)" and filings_data = scenario_index]
  by (simp add: json_response_def scenario_index_def)

subsection \<open>Sorting by date\<close>

text \<open>
  C9. \<^verbatim>\<open>sort_statements_by_date\<close> returns the statements in ascending order of
  \<^verbatim>\<open>end_date\<close>, and the sort is stable: for every date, the statements with that date
  are the same, in the same order, before and after. Nothing is added or lost.
\<close>

theorem sort_statements_by_date_stable:
  "sorted (map (\<lambda>s. datetime_key (end_date s)) (sort_statements_by_date statements))
   \<and> length (sort_statements_by_date statements) = length statements
   \<and> set (sort_statements_by_date statements) = set statements
   \<and> filter (\<lambda>s. datetime_key (end_date s) = k) (sort_statements_by_date statements)
       = filter (\<lambda>s. datetime_key (end_date s) = k) statements"
  unfolding sort_statements_by_date_def
  by (simp add: sort_key_stable)

end
